theory Spec2Isabelle
  imports Complex_Main
begin

section \<open>Numbers, exceptions and sequences\<close>

text \<open>
  The analysis code computes on IEEE doubles through numpy and pandas. The development
  takes a finite double as a \<^typ>\<open>real\<close> (exact arithmetic, no rounding and no overflow)
  and keeps the special values only where the control flow of the code depends on them:
  a missing or undefined number (NaN) is \<open>None\<close> of \<^typ>\<open>real option\<close>, and the result of
  a numpy division is an \<open>npfloat\<close>, which also has the two infinities.
\<close>

datatype py_error =
    IndexError
  | KeyError
  | TypeError
  | NameError
  | ValueError
  | OverflowError
  | ProviderError
  | WrappedException py_error

datatype npfloat = Fin real | PInf | NInf | NaN

text \<open>Sequencing of steps that may raise: the first exception ends the computation.\<close>

definition and_then :: "'e + 'a \<Rightarrow> ('a \<Rightarrow> 'e + 'b) \<Rightarrow> 'e + 'b" where
  "and_then m f = (case m of Inl e \<Rightarrow> Inl e | Inr x \<Rightarrow> f x)"

text \<open>\<^verbatim>\<open>int(x)\<close> on a float truncates towards zero.\<close>

definition py_int :: "real \<Rightarrow> int" where
  "py_int x = (if 0 \<le> x then \<lfloor>x\<rfloor> else \<lceil>x\<rceil>)"

text \<open>
  Indexing a one-dimensional array: a negative index counts from the end, an index
  outside the array raises \<^verbatim>\<open>IndexError\<close>.
\<close>

definition py_index :: "'a list \<Rightarrow> int \<Rightarrow> py_error + 'a" where
  "py_index xs i =
     (if 0 \<le> i \<and> i < int (length xs) then Inr (xs ! nat i)
      else if i < 0 \<and> - int (length xs) \<le> i then Inr (xs ! nat (int (length xs) + i))
      else Inl IndexError)"

section \<open>Price tables and return tables\<close>

text \<open>
  A pandas table is kept column by column, in the order of its columns: the symbol and
  the values of its rows. In a price table a cell is \<open>None\<close> where the provider has no
  close for that date (NaN). All columns of a table have the same number of rows.
\<close>

type_synonym price_frame = "(string \<times> real option list) list"

type_synonym returns_frame = "(string \<times> real list) list"

text \<open>
  \<^verbatim>\<open>data.pct_change()\<close>: the first row has no predecessor and is NaN; every later cell is
  \<open>close / previous - 1\<close>, NaN when either close is missing. Closing prices are positive;
  a zero previous close, where IEEE division leaves the finite numbers, is taken as a
  missing cell.
\<close>

definition pct_cell :: "real option \<Rightarrow> real option \<Rightarrow> real option" where
  "pct_cell previous current =
     (case (previous, current) of
        (Some a, Some c) \<Rightarrow> (if a = 0 then None else Some (c / a - 1))
      | _ \<Rightarrow> None)"

fun pct_change_column :: "real option list \<Rightarrow> real option list" where
  "pct_change_column [] = []"
| "pct_change_column (p # ps) = None # map2 pct_cell (p # ps) ps"

definition pct_change :: "price_frame \<Rightarrow> price_frame" where
  "pct_change data = map (\<lambda>(s, col). (s, pct_change_column col)) data"

text \<open>
  \<^verbatim>\<open>.dropna()\<close> with its defaults removes every row (date) that has a NaN in any column.
  It never removes a column.
\<close>

definition row_mask :: "real option list list \<Rightarrow> bool list" where
  "row_mask cols =
     (case cols of
        [] \<Rightarrow> []
      | c # cs \<Rightarrow> foldl (\<lambda>kept col. map2 (\<lambda>keep v. keep \<and> \<not> Option.is_none v) kept col)
                        (map (\<lambda>v. \<not> Option.is_none v) c) cs)"

definition keep_rows :: "bool list \<Rightarrow> real option list \<Rightarrow> real list" where
  "keep_rows kept col = List.map_filter (\<lambda>(keep, v). if keep then v else None) (zip kept col)"

definition dropna :: "price_frame \<Rightarrow> returns_frame" where
  "dropna frame =
     (let kept = row_mask (map snd frame)
      in map (\<lambda>(s, col). (s, keep_rows kept col)) frame)"

section \<open>Statistics of numpy and pandas\<close>

text \<open>The mean of an empty array is NaN.\<close>

definition np_mean :: "real list \<Rightarrow> real option" where
  "np_mean xs = (if xs = [] then None else Some (sum_list xs / real (length xs)))"

text \<open>
  Variance with \<open>ddof\<close> delta degrees of freedom: NaN unless there are more than \<open>ddof\<close>
  observations. \<^verbatim>\<open>Series.var()\<close> and \<^verbatim>\<open>Series.std()\<close> use \<open>ddof = 1\<close>; \<^verbatim>\<open>np.std(series)\<close>
  passes \<open>ddof = 0\<close>.
\<close>

definition var_ddof :: "nat \<Rightarrow> real list \<Rightarrow> real option" where
  "var_ddof ddof xs =
     (if length xs \<le> ddof then None
      else let m = sum_list xs / real (length xs)
           in Some (sum_list (map (\<lambda>x. (x - m)\<^sup>2) xs) / real (length xs - ddof)))"

definition std_ddof :: "nat \<Rightarrow> real list \<Rightarrow> real option" where
  "std_ddof ddof xs = map_option sqrt (var_ddof ddof xs)"

text \<open>\<^verbatim>\<open>np.sqrt\<close> of a negative number is NaN, and NaN stays NaN.\<close>

definition np_sqrt :: "real option \<Rightarrow> real option" where
  "np_sqrt x = (case x of None \<Rightarrow> None | Some v \<Rightarrow> (if v < 0 then None else Some (sqrt v)))"

text \<open>
  Division of numpy doubles does not raise: a zero divisor gives an infinity of the
  sign of the dividend, and NaN for \<open>0 / 0\<close>.
\<close>

definition np_divide :: "real \<Rightarrow> real \<Rightarrow> npfloat" where
  "np_divide a b =
     (if b \<noteq> 0 then Fin (a / b)
      else if a = 0 then NaN
      else if 0 < a then PInf
      else NInf)"

text \<open>
  \<^verbatim>\<open>returns.dot(weights)\<close>: one number per row, the sum over the columns of cell times
  weight; as many weights as columns, or \<^verbatim>\<open>ValueError\<close>.
\<close>

definition frame_dot :: "returns_frame \<Rightarrow> real list \<Rightarrow> py_error + real list" where
  "frame_dot frame w =
     (if length frame \<noteq> length w then Inl ValueError
      else Inr (case frame of
                  [] \<Rightarrow> []
                | (s, c) # _ \<Rightarrow>
                    foldr (\<lambda>(col, wi) acc. map2 (\<lambda>x a. x * wi + a) col acc)
                      (zip (map snd frame) w) (replicate (length c) 0)))"

section \<open>Value at Risk: \<^verbatim>\<open>AnalysisService.calculate_var\<close>\<close>

text \<open>
  \<^verbatim>\<open>
  sorted_returns = np.sort(returns)
  index = int((1 - confidence_level) * len(sorted_returns))
  var = -sorted_returns[index]
  if timeframe == 'weekly':    var *= np.sqrt(5)
  elif timeframe == 'monthly': var *= np.sqrt(21)
  return var
  \<close>
\<close>

definition calculate_var :: "real list \<Rightarrow> real \<Rightarrow> string \<Rightarrow> py_error + real" where
  "calculate_var returns confidence_level timeframe =
     (let sorted_returns = sort returns;
          index = py_int ((1 - confidence_level) * real (length sorted_returns))
      in and_then (py_index sorted_returns index) (\<lambda>selected.
           let var = - selected
           in if timeframe = ''weekly'' then Inr (var * sqrt 5)
              else if timeframe = ''monthly'' then Inr (var * sqrt 21)
              else Inr var))"

section \<open>Portfolio VaR: \<^verbatim>\<open>AnalysisService.calculate_portfolio_var\<close>\<close>

text \<open>
  The dictionary the service returns. The three VaR values are numbers; the other three
  are numpy doubles that may be NaN or infinite.
\<close>

record var_metrics =
  daily_var :: real
  weekly_var :: real
  monthly_var :: real
  volatility :: npfloat
  expected_return :: npfloat
  sharpe_ratio :: npfloat

text \<open>
  \<^verbatim>\<open>
  try:
      data = yf.download(symbols, period="1y", interval="1d")['Adj Close']
      returns = data.pct_change().dropna()
      portfolio_returns = returns.dot(weights)
      var_metrics = {'daily_var': self.calculate_var(portfolio_returns, confidence_level, 'daily'),
                     'weekly_var': ... 'weekly', 'monthly_var': ... 'monthly'}
      volatility = np.std(portfolio_returns) * np.sqrt(252)
      expected_return = np.mean(portfolio_returns) * 252
      var_metrics.update({'volatility': volatility, 'expected_return': expected_return,
                          'sharpe_ratio': (expected_return - 0.04) / volatility})
      return var_metrics
  except Exception as e:
      raise Exception(f"Error calculating portfolio VaR: {str(e)}")
  \<close>
  The outcome of the download is an argument: the table, or the exception of the provider.
\<close>

definition portfolio_var_body ::
  "py_error + price_frame \<Rightarrow> real list \<Rightarrow> real \<Rightarrow> py_error + var_metrics" where
  "portfolio_var_body download weights confidence_level =
     and_then download (\<lambda>data.
       let returns = dropna (pct_change data)
       in and_then (frame_dot returns weights) (\<lambda>portfolio_returns.
            and_then (calculate_var portfolio_returns confidence_level ''daily'') (\<lambda>d.
            and_then (calculate_var portfolio_returns confidence_level ''weekly'') (\<lambda>w.
            and_then (calculate_var portfolio_returns confidence_level ''monthly'') (\<lambda>m.
              (case (std_ddof 0 portfolio_returns, np_mean portfolio_returns) of
                 (Some sd, Some mu) \<Rightarrow>
                   let vol = sd * sqrt 252;
                       er = mu * 252
                   in Inr \<lparr>daily_var = d, weekly_var = w, monthly_var = m,
                           volatility = Fin vol, expected_return = Fin er,
                           sharpe_ratio = np_divide (er - 0.04) vol\<rparr>
               | _ \<Rightarrow>
                   Inr \<lparr>daily_var = d, weekly_var = w, monthly_var = m,
                        volatility = NaN, expected_return = NaN, sharpe_ratio = NaN\<rparr>))))))"

definition calculate_portfolio_var ::
  "py_error + price_frame \<Rightarrow> real list \<Rightarrow> real \<Rightarrow> py_error + var_metrics" where
  "calculate_portfolio_var download weights confidence_level =
     (case portfolio_var_body download weights confidence_level of
        Inl e \<Rightarrow> Inl (WrappedException e)
      | Inr var_metrics \<Rightarrow> Inr var_metrics)"

section \<open>Recommendations: \<^verbatim>\<open>generate_recommendations\<close>\<close>

text \<open>
  An entry of the optimization list. The reason is the fixed text
  \<^verbatim>\<open>Poor risk-adjusted return (Sharpe ratio: ...)\<close> around the asset's Sharpe ratio
  printed with two decimals; the entry keeps the ratio itself.
\<close>

record recommendation_entry =
  entry_symbol :: string
  action :: string
  reason_sharpe :: real

record recommendations =
  summary :: string
  diversification :: string
  sector_exposure :: string
  optimization :: "recommendation_entry list"

definition high_correlation_message :: string where
  "high_correlation_message =
     ''Your portfolio shows high correlation between assets. Consider adding uncorrelated assets to improve diversification.''"

definition moderate_diversification_message :: string where
  "moderate_diversification_message =
     ''Your portfolio has moderate diversification. Consider adding assets from different sectors to reduce correlation.''"

definition well_diversified_message :: string where
  "well_diversified_message =
     ''Your portfolio is well-diversified with low correlation between assets.''"

definition high_risk_summary :: string where
  "high_risk_summary =
     ''Your portfolio has a high risk profile. Consider reducing exposure to volatile assets if this exceeds your risk tolerance.''"

definition moderate_risk_summary :: string where
  "moderate_risk_summary =
     ''Your portfolio has a moderate risk profile, which is suitable for balanced investment goals.''"

definition conservative_risk_summary :: string where
  "conservative_risk_summary =
     ''Your portfolio has a conservative risk profile with lower potential returns but better capital preservation.''"

text \<open>
  \<^verbatim>\<open>returns.corr()\<close>: the Pearson correlation of two columns, NaN when either column has
  no spread (which includes fewer than two rows).
\<close>

definition pearson :: "real list \<Rightarrow> real list \<Rightarrow> real option" where
  "pearson xs ys =
     (case (np_mean xs, np_mean ys) of
        (Some mx, Some my) \<Rightarrow>
          let sxy = sum_list (map2 (\<lambda>x y. (x - mx) * (y - my)) xs ys);
              sxx = sum_list (map (\<lambda>x. (x - mx)\<^sup>2) xs);
              syy = sum_list (map (\<lambda>y. (y - my)\<^sup>2) ys);
              divisor = sqrt (sxx * syy)
          in if divisor = 0 then None else Some (sxy / divisor)
      | _ \<Rightarrow> None)"

text \<open>
  \<^verbatim>\<open>np.triu_indices_from(m, 1)\<close>: the pairs \<open>(i, j)\<close> with \<open>i < j\<close>, row by row.
\<close>

fun upper_pairs :: "'a list \<Rightarrow> ('a \<times> 'a) list" where
  "upper_pairs [] = []"
| "upper_pairs (x # xs) = map (Pair x) xs @ upper_pairs xs"

text \<open>
  Sum and mean of an array that may hold NaN: NaN as soon as one entry is NaN; the mean
  of no entries is NaN.
\<close>

definition nan_sum :: "real option list \<Rightarrow> real option" where
  "nan_sum vs =
     foldr (\<lambda>v acc. case (v, acc) of (Some a, Some b) \<Rightarrow> Some (a + b) | _ \<Rightarrow> None) vs (Some 0)"

definition nan_mean :: "real option list \<Rightarrow> real option" where
  "nan_mean vs =
     (if vs = [] then None else map_option (\<lambda>t. t / real (length vs)) (nan_sum vs))"

definition avg_correlation :: "returns_frame \<Rightarrow> real option" where
  "avg_correlation returns =
     nan_mean (map (\<lambda>(xs, ys). pearson xs ys) (upper_pairs (map snd returns)))"

text \<open>A comparison with NaN is false.\<close>

definition nan_greater :: "real option \<Rightarrow> real \<Rightarrow> bool" where
  "nan_greater v t = (case v of None \<Rightarrow> False | Some x \<Rightarrow> t < x)"

definition diversification_message :: "real option \<Rightarrow> string" where
  "diversification_message avg =
     (if nan_greater avg 0.7 then high_correlation_message
      else if nan_greater avg 0.5 then moderate_diversification_message
      else well_diversified_message)"

definition summary_message :: "int \<Rightarrow> string" where
  "summary_message risk_score =
     (if risk_score \<ge> 8 then high_risk_summary
      else if risk_score \<ge> 5 then moderate_risk_summary
      else conservative_risk_summary)"

text \<open>
  \<^verbatim>\<open>
  asset_return = returns[symbol].mean() * 252
  asset_risk = returns[symbol].std() * np.sqrt(252)
  asset_sharpe = asset_return / asset_risk if asset_risk > 0 else 0
  \<close>
  A NaN risk (fewer than two rows) is not greater than 0.
\<close>

definition asset_sharpe :: "real list \<Rightarrow> real" where
  "asset_sharpe col =
     (case (np_mean col, std_ddof 1 col) of
        (Some m, Some sd) \<Rightarrow>
          let asset_return = m * 252;
              asset_risk = sd * sqrt 252
          in if asset_risk > 0 then asset_return / asset_risk else 0
      | _ \<Rightarrow> 0)"

definition reduce_entry :: "string \<Rightarrow> real \<Rightarrow> recommendation_entry" where
  "reduce_entry ticker sharpe = \<lparr>entry_symbol = ticker, action = ''reduce'', reason_sharpe = sharpe\<rparr>"

text \<open>
  \<^verbatim>\<open>
  for i, symbol in enumerate(symbols):
      ...
      if asset_sharpe < 0.1 and weights[i] > 0.1:
          recommendations["optimization"].append({...})
  \<close>
  \<^verbatim>\<open>returns[symbol]\<close> raises \<^verbatim>\<open>KeyError\<close> for a symbol that is no column; \<^verbatim>\<open>weights[i]\<close> is
  read only when the first test holds.
\<close>

fun optimization_loop ::
  "returns_frame \<Rightarrow> real list \<Rightarrow> nat \<Rightarrow> string list \<Rightarrow> recommendation_entry list
     \<Rightarrow> py_error + recommendation_entry list" where
  "optimization_loop returns weights i [] acc = Inr acc"
| "optimization_loop returns weights i (ticker # rest) acc =
     (case map_of returns ticker of
        None \<Rightarrow> Inl KeyError
      | Some col \<Rightarrow>
          if asset_sharpe col < 0.1
          then and_then (py_index weights (int i)) (\<lambda>w.
                 optimization_loop returns weights (Suc i) rest
                   (if w > 0.1 then acc @ [reduce_entry ticker (asset_sharpe col)] else acc))
          else optimization_loop returns weights (Suc i) rest acc)"

definition generate_recommendations ::
  "returns_frame \<Rightarrow> real list \<Rightarrow> string list \<Rightarrow> int \<Rightarrow> py_error + recommendations" where
  "generate_recommendations returns weights symbols risk_score =
     and_then (optimization_loop returns weights 0 symbols []) (\<lambda>entries.
       Inr \<lparr>summary = summary_message risk_score,
            diversification = diversification_message (avg_correlation returns),
            sector_exposure = [],
            optimization = entries\<rparr>)"

section \<open>The database and the price provider\<close>

record stock =
  symbol :: string
  current_price :: "real option"

record holding =
  holding_portfolio_id :: nat
  stock_id :: nat
  quantity :: real

record portfolio =
  portfolio_id :: nat
  owner_id :: nat

text \<open>A Python value as far as the analysis record stores one.\<close>

datatype pyvalue = PyFloat "real option" | PyInt int | PyObject

record risk_analysis =
  ra_portfolio_id :: nat
  ra_risk_score :: int
  ra_volatility :: "real option"
  ra_sharpe_ratio :: "real option"
  ra_var_95 :: pyvalue
  ra_recommendations :: recommendations
  ra_analysis_date :: nat

text \<open>The table of stocks is keyed by the stock's id.\<close>

record database =
  portfolios :: "portfolio list"
  holdings :: "holding list"
  stocks :: "(nat \<times> stock) list"
  risk_analyses :: "risk_analysis list"

text \<open>
  What the world outside answers during one request: the two downloads of the price
  table (the handler's and the service's), the covariance matrix fitted by
  \<^verbatim>\<open>LedoitWolf\<close>, each possibly an exception, and the clock.
\<close>

record provider =
  router_download :: "py_error + price_frame"
  ledoit_wolf :: "py_error + real list list"
  service_download :: "py_error + price_frame"
  utcnow :: nat

section \<open>Weights: the holdings loop of \<^verbatim>\<open>analyze_portfolio_risk\<close>\<close>

text \<open>
  \<^verbatim>\<open>
  for holding in holdings:
      stock = db.query(models.Stock).filter(models.Stock.id == holding.stock_id).first()
      if stock and stock.current_price:
          symbols.append(stock.symbol)
          value = holding.quantity * stock.current_price
          total_value += value
          weights.append(value)
  \<close>
  A price that is missing or 0 is false.
\<close>

fun collect_positions ::
  "(nat \<times> stock) list \<Rightarrow> holding list \<Rightarrow> string list \<times> real list \<times> real
     \<Rightarrow> string list \<times> real list \<times> real" where
  "collect_positions table [] acc = acc"
| "collect_positions table (h # hs) (symbols, weights, total_value) =
     (case map_of table (stock_id h) of
        None \<Rightarrow> collect_positions table hs (symbols, weights, total_value)
      | Some st \<Rightarrow>
          (case current_price st of
             None \<Rightarrow> collect_positions table hs (symbols, weights, total_value)
           | Some price \<Rightarrow>
               if price = 0 then collect_positions table hs (symbols, weights, total_value)
               else let v = quantity h * price
                    in collect_positions table hs (symbols @ [symbol st], weights @ [v], total_value + v)))"

text \<open>
  \<^verbatim>\<open>weights = np.array(weights) / total_value if total_value > 0
            else np.array([1/len(weights)] * len(weights))\<close>
\<close>

definition normalize_weights :: "real list \<Rightarrow> real \<Rightarrow> real list" where
  "normalize_weights weights total_value =
     (if total_value > 0 then map (\<lambda>v. v / total_value) weights
      else replicate (length weights) (1 / real (length weights)))"

text \<open>
  The position a holding contributes, read off the loop: its symbol and its market value
  \<open>quantity * current_price\<close>, if its stock exists and has a price that is not 0.
\<close>

definition position_value :: "(nat \<times> stock) list \<Rightarrow> holding \<Rightarrow> (string \<times> real) option" where
  "position_value table h =
     (case map_of table (stock_id h) of
        None \<Rightarrow> None
      | Some st \<Rightarrow>
          (case current_price st of
             None \<Rightarrow> None
           | Some price \<Rightarrow> (if price = 0 then None else Some (symbol st, quantity h * price))))"

section \<open>Portfolio metrics of the handler\<close>

text \<open>
  \<^verbatim>\<open>weights.T @ cov_matrix @ weights\<close>: the quadratic form; a matrix that is not square of
  the size of the weights raises \<^verbatim>\<open>ValueError\<close>.
\<close>

definition quadratic_form :: "real list \<Rightarrow> real list list \<Rightarrow> py_error + real" where
  "quadratic_form w M =
     (if length M = length w \<and> list_all (\<lambda>row. length row = length w) M
      then Inr (sum_list (map2 (\<lambda>wi row. wi * sum_list (map2 (\<lambda>m wj. m * wj) row w)) w M))
      else Inl ValueError)"

text \<open>\<^verbatim>\<open>returns.var()[0]\<close>: the variance of the first column.\<close>

definition first_variance :: "returns_frame \<Rightarrow> py_error + real option" where
  "first_variance returns =
     (case returns of [] \<Rightarrow> Inl IndexError | (s, col) # _ \<Rightarrow> Inr (var_ddof 1 col))"

text \<open>
  \<^verbatim>\<open>
  if len(symbols) > 1:
      cov_matrix = LedoitWolf().fit(returns).covariance_
      portfolio_variance = weights.T @ cov_matrix @ weights
  else:
      portfolio_variance = returns.var()[0]
  \<close>
\<close>

definition portfolio_variance ::
  "py_error + real list list \<Rightarrow> string list \<Rightarrow> returns_frame \<Rightarrow> real list \<Rightarrow> py_error + real option" where
  "portfolio_variance fitted symbols returns weights =
     (if length symbols > 1
      then and_then fitted (\<lambda>cov_matrix.
             and_then (quadratic_form weights cov_matrix) (\<lambda>q. Inr (Some q)))
      else first_variance returns)"

text \<open>\<^verbatim>\<open>volatility = np.sqrt(portfolio_variance) * np.sqrt(252)\<close>\<close>

definition annualized_volatility :: "real option \<Rightarrow> real option" where
  "annualized_volatility variance = map_option (\<lambda>r. r * sqrt 252) (np_sqrt variance)"

text \<open>
  \<^verbatim>\<open>expected_return = np.sum(returns.mean() * weights) * 252\<close>: the column means times
  the weights, position by position; as many weights as columns, or \<^verbatim>\<open>ValueError\<close>.
\<close>

definition annualized_return :: "returns_frame \<Rightarrow> real list \<Rightarrow> py_error + real option" where
  "annualized_return returns weights =
     (if length returns \<noteq> length weights then Inl ValueError
      else Inr (map_option (\<lambda>t. t * 252)
             (nan_sum (map2 (\<lambda>(s, col) w. map_option (\<lambda>m. m * w) (np_mean col)) returns weights))))"

text \<open>
  \<^verbatim>\<open>
  risk_free_rate = 0.04
  sharpe_ratio = (expected_return - risk_free_rate) / volatility if volatility > 0 else 0
  \<close>
\<close>

definition handler_sharpe_ratio :: "real option \<Rightarrow> real option \<Rightarrow> real option" where
  "handler_sharpe_ratio er vol =
     (let risk_free_rate = 0.04
      in if nan_greater vol 0
         then (case (er, vol) of (Some e, Some v) \<Rightarrow> Some ((e - risk_free_rate) / v) | _ \<Rightarrow> None)
         else Some 0)"

section \<open>The risk score\<close>

text \<open>
  Python's \<^verbatim>\<open>round\<close> of a float to an integer rounds to the nearest integer and a tie
  to the even one; it raises on an infinity and on NaN.
\<close>

definition py_round :: "real \<Rightarrow> int" where
  "py_round x =
     (let f = \<lfloor>x\<rfloor>; d = x - of_int f
      in if d < 1 / 2 then f
         else if 1 / 2 < d then f + 1
         else if even f then f else f + 1)"

definition round_float :: "npfloat \<Rightarrow> py_error + int" where
  "round_float x =
     (case x of Fin v \<Rightarrow> Inr (py_round v) | PInf \<Rightarrow> Inl OverflowError
      | NInf \<Rightarrow> Inl OverflowError | NaN \<Rightarrow> Inl ValueError)"

text \<open>Division and multiplication of a double by a positive constant, and \<^verbatim>\<open>abs(x - k)\<close>.\<close>

definition np_over :: "npfloat \<Rightarrow> real \<Rightarrow> npfloat" where
  "np_over x k = (case x of Fin v \<Rightarrow> Fin (v / k) | _ \<Rightarrow> x)"

definition np_times :: "npfloat \<Rightarrow> real \<Rightarrow> npfloat" where
  "np_times x k = (case x of Fin v \<Rightarrow> Fin (v * k) | _ \<Rightarrow> x)"

definition np_abs_diff :: "npfloat \<Rightarrow> real \<Rightarrow> npfloat" where
  "np_abs_diff x k =
     (case x of Fin v \<Rightarrow> Fin \<bar>v - k\<bar> | PInf \<Rightarrow> PInf | NInf \<Rightarrow> PInf | NaN \<Rightarrow> NaN)"

definition fin_value :: "npfloat \<Rightarrow> real" where
  "fin_value x = (case x of Fin v \<Rightarrow> v | _ \<Rightarrow> 0)"

text \<open>\<^verbatim>\<open>np.mean\<close> of a list of doubles.\<close>

definition np_mean_floats :: "npfloat list \<Rightarrow> npfloat" where
  "np_mean_floats xs =
     (if xs = [] \<or> List.member xs NaN \<or> (List.member xs PInf \<and> List.member xs NInf) then NaN
      else if List.member xs PInf then PInf
      else if List.member xs NInf then NInf
      else Fin (sum_list (map fin_value xs) / real (length xs)))"

text \<open>
  \<^verbatim>\<open>
  risk_factors = [risk_metrics['volatility'] / 0.3,
                  risk_metrics['daily_var'] / 0.03,
                  abs(risk_metrics['sharpe_ratio'] - 2) / 2]
  risk_score = min(10, max(1, round(np.mean(risk_factors) * 10)))
  \<close>
\<close>

definition risk_score_of :: "npfloat \<Rightarrow> real \<Rightarrow> npfloat \<Rightarrow> py_error + int" where
  "risk_score_of vol dvar sharpe =
     (let risk_factors = [np_over vol 0.3, Fin (dvar / 0.03), np_over (np_abs_diff sharpe 2) 2]
      in and_then (round_float (np_times (np_mean_floats risk_factors) 10)) (\<lambda>r.
           Inr (min 10 (max 1 r))))"

section \<open>The handler \<^verbatim>\<open>analyze_portfolio_risk\<close>\<close>

text \<open>
  A call by keywords binds each keyword to the parameter of that name. A keyword that
  names no parameter, or a parameter without default left unbound, raises \<^verbatim>\<open>TypeError\<close>.
\<close>

definition bind_keywords :: "string list \<Rightarrow> string list \<Rightarrow> py_error + unit" where
  "bind_keywords parameters keywords =
     (if list_all (List.member parameters) keywords \<and> list_all (List.member keywords) parameters
      then Inr () else Inl TypeError)"

text \<open>\<^verbatim>\<open>def generate_recommendations(returns, weights, symbols, risk_score):\<close>\<close>

definition generate_recommendations_parameters :: "string list" where
  "generate_recommendations_parameters = [''returns'', ''weights'', ''symbols'', ''risk_score'']"

text \<open>
  The keywords of the call in the handler:
  \<^verbatim>\<open>generate_recommendations(returns=returns, weights=weights, symbols=symbols,
      risk_score=risk_score, risk_metrics=risk_metrics)\<close>
\<close>

definition recommendation_call_keywords :: "string list" where
  "recommendation_call_keywords =
     [''returns'', ''weights'', ''symbols'', ''risk_score'', ''risk_metrics'']"

text \<open>
  The names a load inside the handler can resolve: its parameters and every variable it
  assigns, then the names the module imports or defines. (No Python builtin is called
  \<^verbatim>\<open>var_95\<close>.) A name that is in neither raises \<^verbatim>\<open>NameError\<close>.
\<close>

definition handler_local_names :: "string list" where
  "handler_local_names =
     [''portfolio_id'', ''confidence_level'', ''db'', ''current_user'', ''portfolio'', ''holdings'',
      ''symbols'', ''weights'', ''total_value'', ''holding'', ''stock'', ''value'', ''data'',
      ''returns'', ''cov_matrix'', ''portfolio_variance'', ''volatility'', ''expected_return'',
      ''risk_free_rate'', ''sharpe_ratio'', ''risk_metrics'', ''risk_factors'', ''risk_score'',
      ''recommendations'', ''risk_analysis'', ''e'']"

definition module_names :: "string list" where
  "module_names =
     [''APIRouter'', ''Depends'', ''HTTPException'', ''status'', ''Session'', ''List'', ''Dict'',
      ''Any'', ''Optional'', ''datetime'', ''timedelta'', ''np'', ''pd'', ''yf'', ''LedoitWolf'',
      ''get_db'', ''models'', ''schemas'', ''get_current_active_user'', ''router'',
      ''analysis_service'', ''analyze_portfolio_risk'', ''generate_recommendations'',
      ''get_risk_analysis_history'', ''get_latest_risk_analysis'', ''compare_portfolio_risks'']"

definition load_name :: "(string \<times> pyvalue) list \<Rightarrow> string \<Rightarrow> py_error + pyvalue" where
  "load_name bound name =
     (if List.member (handler_local_names @ module_names) name
      then (case map_of bound name of Some v \<Rightarrow> Inr v | None \<Rightarrow> Inr PyObject)
      else Inl NameError)"

text \<open>
  The body of the \<^verbatim>\<open>try\<close> block, from the download to the construction of the
  \<^verbatim>\<open>RiskAnalysis\<close> record.
\<close>

definition analysis_body ::
  "provider \<Rightarrow> nat \<Rightarrow> real \<Rightarrow> string list \<Rightarrow> real list \<Rightarrow> py_error + risk_analysis" where
  "analysis_body world pid confidence symbols weights =
     and_then (router_download world) (\<lambda>data.
       let returns = dropna (pct_change data)
       in and_then (portfolio_variance (ledoit_wolf world) symbols returns weights) (\<lambda>variance.
          let vol = annualized_volatility variance
          in and_then (annualized_return returns weights) (\<lambda>er.
             let sharpe = handler_sharpe_ratio er vol
             in and_then (calculate_portfolio_var (service_download world) weights confidence) (\<lambda>risk_metrics.
                and_then (risk_score_of (volatility risk_metrics) (daily_var risk_metrics)
                            (sharpe_ratio risk_metrics)) (\<lambda>risk_score.
                and_then (bind_keywords generate_recommendations_parameters recommendation_call_keywords) (\<lambda>_.
                and_then (generate_recommendations returns weights symbols risk_score) (\<lambda>recs.
                and_then (load_name [(''volatility'', PyFloat vol), (''sharpe_ratio'', PyFloat sharpe),
                                     (''risk_score'', PyInt risk_score)] ''var_95'') (\<lambda>var_95.
                  Inr \<lparr>ra_portfolio_id = pid, ra_risk_score = risk_score, ra_volatility = vol,
                       ra_sharpe_ratio = sharpe, ra_var_95 = var_95, ra_recommendations = recs,
                       ra_analysis_date = utcnow world\<rparr>))))))))"

datatype detail = Message string | AnalysisError py_error

datatype response = HTTPException nat detail | Returned risk_analysis

text \<open>
  The handler: the three checks before the \<^verbatim>\<open>try\<close> block answer 404 or 400; any
  exception inside the block is answered 500 by \<^verbatim>\<open>except Exception\<close>; a constructed
  record is added to the database and returned.
\<close>

definition analyze_portfolio_risk ::
  "database \<Rightarrow> provider \<Rightarrow> nat \<Rightarrow> real \<Rightarrow> nat \<Rightarrow> response \<times> database" where
  "analyze_portfolio_risk db world pid confidence user =
     (case find (\<lambda>p. portfolio_id p = pid \<and> owner_id p = user) (portfolios db) of
        None \<Rightarrow> (HTTPException 404 (Message ''Portfolio not found''), db)
      | Some p \<Rightarrow>
          let hs = filter (\<lambda>h. holding_portfolio_id h = pid) (holdings db)
          in if hs = [] then (HTTPException 400 (Message ''Portfolio has no holdings''), db)
             else (case collect_positions (stocks db) hs ([], [], 0) of
                     (symbols, values, total_value) \<Rightarrow>
                       if symbols = [] then (HTTPException 400 (Message ''No valid stocks in portfolio''), db)
                       else (case analysis_body world pid confidence symbols
                                     (normalize_weights values total_value) of
                               Inl e \<Rightarrow> (HTTPException 500 (AnalysisError e), db)
                             | Inr analysis \<Rightarrow>
                                 (Returned analysis,
                                  db\<lparr>risk_analyses := risk_analyses db @ [analysis]\<rparr>))))"

text \<open>A request gets past the three checks that precede the \<^verbatim>\<open>try\<close> block.\<close>

definition reaches_analysis :: "database \<Rightarrow> nat \<Rightarrow> nat \<Rightarrow> bool" where
  "reaches_analysis db pid user =
     (find (\<lambda>p. portfolio_id p = pid \<and> owner_id p = user) (portfolios db) \<noteq> None
      \<and> filter (\<lambda>h. holding_portfolio_id h = pid) (holdings db) \<noteq> []
      \<and> fst (collect_positions (stocks db)
                (filter (\<lambda>h. holding_portfolio_id h = pid) (holdings db)) ([], [], 0)) \<noteq> [])"

section \<open>A sample request\<close>

text \<open>
  Portfolio 3 of user 7 holds stock \<open>A\<close> and stock \<open>B\<close>, worth 200 each; the provider has
  three closes of both.
\<close>

definition sample_database :: database where
  "sample_database =
     \<lparr>portfolios = [\<lparr>portfolio_id = 3, owner_id = 7\<rparr>],
      holdings = [\<lparr>holding_portfolio_id = 3, stock_id = 11, quantity = 2\<rparr>,
                  \<lparr>holding_portfolio_id = 3, stock_id = 12, quantity = 4\<rparr>],
      stocks = [(11, \<lparr>symbol = ''A'', current_price = Some 100\<rparr>),
                (12, \<lparr>symbol = ''B'', current_price = Some 50\<rparr>)],
      risk_analyses = []\<rparr>"

definition sample_prices :: price_frame where
  "sample_prices = [(''A'', [Some 100, Some 110, Some 121]), (''B'', [Some 10, Some 20, Some 50])]"

definition sample_provider :: provider where
  "sample_provider =
     \<lparr>router_download = Inr sample_prices,
      ledoit_wolf = Inr [[1, 0], [0, 1]],
      service_download = Inr sample_prices,
      utcnow = 0\<rparr>"

section \<open>Properties of \<^verbatim>\<open>calculate_var\<close>\<close>

lemma and_then_Inr [simp]: "and_then (Inr x) f = f x"
  by (simp add: and_then_def)

lemma and_then_Inl [simp]: "and_then (Inl e) f = Inl e"
  by (simp add: and_then_def)










section \<open>Properties of \<^verbatim>\<open>calculate_portfolio_var\<close>\<close>

lemma calculate_var_weekly:
  "calculate_var xs c ''weekly'' =
     (case calculate_var xs c ''daily'' of Inl e \<Rightarrow> Inl e | Inr d \<Rightarrow> Inr (d * sqrt 5))"
  by (simp add: calculate_var_def Let_def and_then_def split: sum.splits)

lemma calculate_var_monthly:
  "calculate_var xs c ''monthly'' =
     (case calculate_var xs c ''daily'' of Inl e \<Rightarrow> Inl e | Inr d \<Rightarrow> Inr (d * sqrt 21))"
  by (simp add: calculate_var_def Let_def and_then_def split: sum.splits)

lemma portfolio_var_body_horizons:
  assumes "portfolio_var_body download weights c = Inr m"
  shows "weekly_var m = daily_var m * sqrt 5 \<and> monthly_var m = daily_var m * sqrt 21"
  using assms
  by (auto simp: portfolio_var_body_def and_then_def Let_def calculate_var_weekly calculate_var_monthly
      split: sum.splits option.splits)

lemma two_asset_portfolio_returns:
  "frame_dot (dropna (pct_change [(''A'', [Some 100, Some 110, Some 121]),
                                  (''B'', [Some 10, Some 20, Some 50])])) [1 / 2, 1 / 2]
     = Inr [11 / 20, 4 / 5]"
  by (simp add: pct_change_def dropna_def row_mask_def keep_rows_def map_filter_simps
      pct_cell_def frame_dot_def)

lemma flat_portfolio_returns:
  "frame_dot (dropna (pct_change [(''A'', [Some 100, Some 100, Some 100])])) [1] = Inr [0, 0]"
  by (simp add: pct_change_def dropna_def row_mask_def keep_rows_def map_filter_simps
      pct_cell_def frame_dot_def)

lemma two_asset_daily_var:
  "\<exists>m. calculate_portfolio_var (Inr [(''A'', [Some 100, Some 110, Some 121]),
                                      (''B'', [Some 10, Some 20, Some 50])]) [1 / 2, 1 / 2] (95 / 100) = Inr m
     \<and> daily_var m = - (11 / 20)"
  by (simp add: calculate_portfolio_var_def portfolio_var_body_def two_asset_portfolio_returns
      calculate_var_def py_index_def py_int_def std_ddof_def var_ddof_def np_mean_def np_divide_def)

text \<open>
  C9. Whenever \<^verbatim>\<open>calculate_portfolio_var\<close> returns its dictionary, the weekly VaR is the
  daily VaR times \<open>sqrt 5\<close> and the monthly VaR is the daily VaR times \<open>sqrt 21\<close>: the three
  calls select the same return of the same sorted series and only the scaling differs.
\<close>

theorem calculate_portfolio_var_horizons:
  assumes "calculate_portfolio_var download weights c = Inr m"
  shows "weekly_var m = daily_var m * sqrt 5 \<and> monthly_var m = daily_var m * sqrt 21"
proof -
  from assms have "portfolio_var_body download weights c = Inr m"
    by (simp add: calculate_portfolio_var_def split: sum.splits)
  then show ?thesis by (rule portfolio_var_body_horizons)
qed

theorem calculate_portfolio_var_horizons_witness:
  "\<exists>m. calculate_portfolio_var (Inr [(''A'', [Some 100, Some 110, Some 121]),
                                      (''B'', [Some 10, Some 20, Some 50])]) [1 / 2, 1 / 2] (95 / 100) = Inr m
     \<and> daily_var m = - (11 / 20)
     \<and> weekly_var m = - (11 / 20) * sqrt 5
     \<and> monthly_var m = - (11 / 20) * sqrt 21"
proof -
  obtain m where m:
    "calculate_portfolio_var (Inr [(''A'', [Some 100, Some 110, Some 121]),
                                   (''B'', [Some 10, Some 20, Some 50])]) [1 / 2, 1 / 2] (95 / 100) = Inr m"
    "daily_var m = - (11 / 20)"
    using two_asset_daily_var by blast
  from calculate_portfolio_var_horizons [OF m(1)] m show ?thesis by auto
qed

lemma portfolio_var_body_zero_volatility:
  assumes "portfolio_var_body download weights c = Inr m" and "volatility m = Fin 0"
  shows "sharpe_ratio m = NaN \<or> sharpe_ratio m = PInf \<or> sharpe_ratio m = NInf"
  using assms
  by (auto simp: portfolio_var_body_def and_then_def Let_def np_divide_def
      split: sum.splits option.splits if_splits)

lemma calculate_portfolio_var_zero_volatility:
  assumes "calculate_portfolio_var download weights c = Inr m" and "volatility m = Fin 0"
  shows "sharpe_ratio m \<noteq> Fin 0"
proof -
  from assms(1) have "portfolio_var_body download weights c = Inr m"
    by (simp add: calculate_portfolio_var_def split: sum.splits)
  from portfolio_var_body_zero_volatility [OF this assms(2)] show ?thesis
    by auto
qed

text \<open>
  C2. The claim reads: wherever a Sharpe ratio is produced, a volatility of exactly 0
  gives a Sharpe ratio of 0. The service divides without a guard. One holding with a flat
  price history has the portfolio returns \<open>[0, 0]\<close>, volatility 0 and expected return 0,
  and the service's Sharpe ratio is \<open>(0 - 0.04) / 0\<close>: minus infinity, not 0.
\<close>

theorem calculate_portfolio_var_flat_prices_sharpe:
  "calculate_portfolio_var (Inr [(''A'', [Some 100, Some 100, Some 100])]) [1] (95 / 100)
     = Inr \<lparr>daily_var = 0, weekly_var = 0, monthly_var = 0,
            volatility = Fin 0, expected_return = Fin 0, sharpe_ratio = NInf\<rparr>"
  by (simp add: calculate_portfolio_var_def portfolio_var_body_def flat_portfolio_returns
      calculate_var_def py_index_def py_int_def std_ddof_def var_ddof_def np_mean_def np_divide_def)

section \<open>Properties of the risk score\<close>

lemma py_round_nearest: "\<bar>of_int (py_round x) - x\<bar> \<le> 1 / 2"
  unfolding py_round_def Let_def by (auto simp: abs_le_iff)

lemma risk_score_of_finite:
  "risk_score_of (Fin v) d (Fin s) =
     Inr (min 10 (max 1 (py_round ((v / 0.3 + d / 0.03 + \<bar>s - 2\<bar> / 2) / 3 * 10))))"
  by (simp add: risk_score_of_def np_over_def np_abs_diff_def np_mean_floats_def np_times_def
      round_float_def fin_value_def add.assoc)


section \<open>Properties of the handler\<close>

lemma recommendation_call_rejected:
  "bind_keywords generate_recommendations_parameters recommendation_call_keywords = Inl TypeError"
  by (simp add: bind_keywords_def generate_recommendations_parameters_def
      recommendation_call_keywords_def)

lemma var_95_unbound: "load_name bound ''var_95'' = Inl NameError"
  by (simp add: load_name_def handler_local_names_def module_names_def)

lemma analysis_body_raises:
  "\<exists>e. analysis_body world pid confidence symbols weights = Inl e"
  by (simp add: analysis_body_def and_then_def Let_def recommendation_call_rejected split: sum.splits)

lemma analysis_body_reaches_call:
  assumes "router_download world = Inr data"
    and "portfolio_variance (ledoit_wolf world) symbols (dropna (pct_change data)) weights = Inr pv"
    and "annualized_return (dropna (pct_change data)) weights = Inr er"
    and "calculate_portfolio_var (service_download world) weights confidence = Inr m"
    and "volatility m = Fin v" and "sharpe_ratio m = Fin s"
  shows "analysis_body world pid confidence symbols weights = Inl TypeError"
  using assms
  by (simp add: analysis_body_def Let_def risk_score_of_finite recommendation_call_rejected)

lemma sample_positions:
  "collect_positions (stocks sample_database)
     (filter (\<lambda>h. holding_portfolio_id h = 3) (holdings sample_database)) ([], [], 0)
   = ([''A'', ''B''], [200, 200], 400)"
  by (simp add: sample_database_def)

lemma sample_reaches_analysis: "reaches_analysis sample_database 3 7"
  by (simp add: reaches_analysis_def sample_positions) (simp add: sample_database_def)

lemma sample_returns:
  "dropna (pct_change sample_prices) = [(''A'', [1 / 10, 1 / 10]), (''B'', [1, 3 / 2])]"
  by (simp add: sample_prices_def pct_change_def dropna_def row_mask_def keep_rows_def
      map_filter_simps pct_cell_def)

lemma sample_var_metrics:
  "calculate_portfolio_var (Inr sample_prices) [1 / 2, 1 / 2] (95 / 100) =
     Inr \<lparr>daily_var = - (11 / 20), weekly_var = - (11 / 20) * sqrt 5,
          monthly_var = - (11 / 20) * sqrt 21,
          volatility = Fin (sqrt 252 / 8), expected_return = Fin (1701 / 10),
          sharpe_ratio = Fin ((1701 / 10 - 4 / 100) / (sqrt 252 / 8))\<rparr>"
  by (simp add: calculate_portfolio_var_def portfolio_var_body_def sample_returns frame_dot_def
      calculate_var_def py_index_def py_int_def std_ddof_def var_ddof_def np_mean_def np_divide_def)

lemma sample_analysis_body:
  "analysis_body sample_provider 3 (95 / 100) [''A'', ''B''] [1 / 2, 1 / 2] = Inl TypeError"
proof -
  have sd: "service_download sample_provider = Inr sample_prices"
    by (simp add: sample_provider_def)
  note m = sample_var_metrics [folded sd]
  have d: "router_download sample_provider = Inr sample_prices"
    by (simp add: sample_provider_def)
  have pv: "portfolio_variance (ledoit_wolf sample_provider) [''A'', ''B'']
              (dropna (pct_change sample_prices)) [1 / 2, 1 / 2] = Inr (Some (1 / 2))"
    by (simp add: portfolio_variance_def sample_provider_def quadratic_form_def)
  have er: "\<exists>er. annualized_return (dropna (pct_change sample_prices)) [1 / 2, 1 / 2] = Inr er"
    by (simp add: annualized_return_def sample_returns)
  then obtain er where er: "annualized_return (dropna (pct_change sample_prices)) [1 / 2, 1 / 2] = Inr er" ..
  show ?thesis
    by (rule analysis_body_reaches_call [OF d pv er m]) (simp_all only: var_metrics.select_convs)
qed

lemma sample_request_type_error:
  "analyze_portfolio_risk sample_database sample_provider 3 (95 / 100) 7
     = (HTTPException 500 (AnalysisError TypeError), sample_database)"
proof -
  have f: "find (\<lambda>p. portfolio_id p = 3 \<and> owner_id p = 7) (portfolios sample_database)
             = Some \<lparr>portfolio_id = 3, owner_id = 7\<rparr>"
    by (simp add: sample_database_def)
  have h: "filter (\<lambda>h. holding_portfolio_id h = 3) (holdings sample_database) \<noteq> []"
    by (simp add: sample_database_def)
  have n: "normalize_weights [200, 200] 400 = [1 / 2, 1 / 2]"
    by (simp add: normalize_weights_def)
  show ?thesis
    using h by (simp add: analyze_portfolio_risk_def f sample_positions n sample_analysis_body [simplified])
qed

text \<open>
  C1. The claim reads: every request ends in the catch-all error response. What holds:
  the call of \<^verbatim>\<open>generate_recommendations\<close> is rejected with \<^verbatim>\<open>TypeError\<close> (the keyword
  \<^verbatim>\<open>risk_metrics\<close> names no parameter), \<^verbatim>\<open>var_95\<close> is bound nowhere, and so no request is
  ever answered with an analysis record and none changes the database. A request that
  gets past the three checks before the \<^verbatim>\<open>try\<close> block is answered 500 by the catch-all
  handler; the others are answered 404 or 400 by those checks.
\<close>

theorem analyze_portfolio_risk_never_returns:
  "bind_keywords generate_recommendations_parameters recommendation_call_keywords = Inl TypeError
   \<and> load_name bound ''var_95'' = Inl NameError
   \<and> (\<exists>code d. analyze_portfolio_risk db world pid confidence user = (HTTPException code d, db)
         \<and> (code = 500 \<longleftrightarrow> reaches_analysis db pid user)
         \<and> (code = 404 \<or> code = 400 \<or> code = 500))"
proof -
  have "\<exists>code d. analyze_portfolio_risk db world pid confidence user = (HTTPException code d, db)
         \<and> (code = 500 \<longleftrightarrow> reaches_analysis db pid user)
         \<and> (code = 404 \<or> code = 400 \<or> code = 500)"
  proof (cases "find (\<lambda>p. portfolio_id p = pid \<and> owner_id p = user) (portfolios db)")
    case None
    then show ?thesis
      by (simp add: analyze_portfolio_risk_def reaches_analysis_def)
  next
    case (Some p)
    let ?hs = "filter (\<lambda>h. holding_portfolio_id h = pid) (holdings db)"
    show ?thesis
    proof (cases "?hs = []")
      case True
      with Some show ?thesis
        by (simp add: analyze_portfolio_risk_def reaches_analysis_def)
    next
      case False
      obtain symbols vals total where c:
        "collect_positions (stocks db) ?hs ([], [], 0) = (symbols, vals, total)"
        by (cases "collect_positions (stocks db) ?hs ([], [], 0)") auto
      show ?thesis
      proof (cases "symbols = []")
        case True
        with Some False c show ?thesis
          by (simp add: analyze_portfolio_risk_def reaches_analysis_def)
      next
        case ne: False
        obtain err where "analysis_body world pid confidence symbols (normalize_weights vals total) = Inl err"
          using analysis_body_raises by blast
        with Some False c ne show ?thesis
          by (simp add: analyze_portfolio_risk_def reaches_analysis_def)
      qed
    qed
  qed
  then show ?thesis
    using recommendation_call_rejected var_95_unbound by blast
qed


theorem analyze_portfolio_risk_never_returns_witness:
  "reaches_analysis sample_database 3 7
   \<and> (\<exists>d. analyze_portfolio_risk sample_database sample_provider 3 (95 / 100) 7
            = (HTTPException 500 d, sample_database))"
  using analyze_portfolio_risk_never_returns [of "[]" sample_database sample_provider 3 "95 / 100" 7]
    sample_reaches_analysis by auto

theorem analyze_portfolio_risk_not_found_counterexample:
  "fst (analyze_portfolio_risk
     \<lparr>portfolios = [], holdings = [], stocks = [], risk_analyses = []\<rparr>
     \<lparr>router_download = Inl ProviderError, ledoit_wolf = Inl ValueError,
      service_download = Inl ProviderError, utcnow = 0\<rparr>
     1 (95 / 100) 7)
   = HTTPException 404 (Message ''Portfolio not found'')"
  by (simp add: analyze_portfolio_risk_def)

section \<open>Properties of the weights\<close>

lemma collect_positions_positions:
  "collect_positions table hs (symbols, weights, total_value) =
     (symbols @ map fst (List.map_filter (position_value table) hs),
      weights @ map snd (List.map_filter (position_value table) hs),
      total_value + sum_list (map snd (List.map_filter (position_value table) hs)))"
proof (induction hs arbitrary: symbols weights total_value)
  case Nil
  show ?case by (simp add: map_filter_simps)
next
  case (Cons h hs)
  show ?case
    by (simp add: Cons.IH map_filter_simps position_value_def Let_def
        split: option.splits)
qed

lemma sum_list_scaled: "sum_list (map (\<lambda>v. v / t) vs) = sum_list vs / (t::real)"
  by (induction vs) (simp_all add: add_divide_distrib)

lemma normalize_weights_sum:
  assumes "vals \<noteq> []"
  shows "sum_list (normalize_weights vals (sum_list vals)) = 1"
  using assms by (simp add: normalize_weights_def sum_list_scaled sum_list_replicate)

text \<open>
  C10. The claim reads: each weight is the holding's market value over the total, and a
  total of 0 falls back to equal weights. The code tests \<open>total_value > 0\<close>. What holds:
  the values are the market values \<open>quantity * current_price\<close> of the holdings with a
  priced stock, in order, and the total is their sum; when the total is positive each
  weight is value over total; when the total is zero or negative each of the \<open>n\<close> values
  gets the weight \<open>1/n\<close>; in both cases the weights of a non-empty list sum to 1.
\<close>

theorem normalize_weights_cases:
  assumes "collect_positions table hs ([], [], 0) = (symbols, vals, t)"
  shows "vals = map snd (List.map_filter (position_value table) hs)
       \<and> t = sum_list vals
       \<and> (0 < t \<longrightarrow> normalize_weights vals t = map (\<lambda>v. v / t) vals)
       \<and> (t \<le> 0 \<longrightarrow> normalize_weights vals t = replicate (length vals) (1 / real (length vals)))
       \<and> (vals \<noteq> [] \<longrightarrow> sum_list (normalize_weights vals t) = 1)"
proof -
  let ?ps = "List.map_filter (position_value table) hs"
  have "collect_positions table hs ([], [], 0) = (map fst ?ps, map snd ?ps, sum_list (map snd ?ps))"
    using collect_positions_positions [of table hs "[]" "[]" 0] by simp
  with assms have "(symbols, vals, t) = (map fst ?ps, map snd ?ps, sum_list (map snd ?ps))"
    by (rule trans [OF sym])
  then have v: "vals = map snd ?ps" and "t = sum_list (map snd ?ps)"
    by blast+
  then have t: "t = sum_list vals"
    by (simp only:)
  show ?thesis
    using v t normalize_weights_sum [of vals] by (simp add: normalize_weights_def)
qed

theorem normalize_weights_cases_witness:
  "collect_positions (stocks sample_database) (holdings sample_database) ([], [], 0)
     = ([''A'', ''B''], [200, 200], 400)
   \<and> (0::real) < 400
   \<and> normalize_weights [200, 200] 400 = [1 / 2, 1 / 2]
   \<and> sum_list (normalize_weights [200, 200] 400) = 1"
proof -
  have c: "collect_positions (stocks sample_database) (holdings sample_database) ([], [], 0)
     = ([''A'', ''B''], [200, 200], 400)"
    by (simp add: sample_database_def)
  show ?thesis
    using normalize_weights_cases [OF c, THEN conjunct2, THEN conjunct2] c by simp
qed

theorem normalize_weights_negative_total_counterexample:
  "collect_positions
     [(11, \<lparr>symbol = ''A'', current_price = Some 10\<rparr>), (12, \<lparr>symbol = ''B'', current_price = Some 10\<rparr>)]
     [\<lparr>holding_portfolio_id = 3, stock_id = 11, quantity = 1\<rparr>,
      \<lparr>holding_portfolio_id = 3, stock_id = 12, quantity = - 3\<rparr>] ([], [], 0)
     = ([''A'', ''B''], [10, - 30], - 20)
   \<and> normalize_weights [10, - 30] (- 20) = [1 / 2, 1 / 2]
   \<and> normalize_weights [10, - 30] (- 20) \<noteq> [10 / (- 20), (- 30) / (- 20)]"
  by (simp add: normalize_weights_def)

section \<open>Properties of \<^verbatim>\<open>generate_recommendations\<close>\<close>

lemma py_index_nat:
  "i < length ws \<Longrightarrow> py_index ws (int i) = Inr (ws ! i)"
  by (simp add: py_index_def)

lemma optimization_loop_filter:
  assumes "map (map_of returns) symbols = map Some cols"
    and "i + length symbols \<le> length weights"
  shows "optimization_loop returns weights i symbols acc =
           Inr (acc @ map (\<lambda>(s, col, w). reduce_entry s (asset_sharpe col))
                        (filter (\<lambda>(s, col, w). asset_sharpe col < 0.1 \<and> w > 0.1)
                           (zip symbols (zip cols (drop i weights)))))"
  using assms
proof (induction symbols arbitrary: i acc cols)
  case Nil
  then show ?case by simp
next
  case (Cons s symbols)
  then obtain col cols' where cols: "cols = col # cols'" "map_of returns s = Some col"
    "map (map_of returns) symbols = map Some cols'"
    by (cases cols) auto
  from Cons.prems(2) have i: "i < length weights" and i': "Suc i + length symbols \<le> length weights"
    by simp_all
  have d: "drop i weights = weights ! i # drop (Suc i) weights"
    using i by (simp add: Cons_nth_drop_Suc)
  show ?case
    using Cons.IH [OF cols(3) i'] cols(1,2) i
    by (simp add: d py_index_nat)
qed


lemma generate_recommendations_result:
  assumes "map (map_of returns) symbols = map Some cols"
    and "length symbols \<le> length weights"
  shows "generate_recommendations returns weights symbols risk_score =
           Inr \<lparr>summary = summary_message risk_score,
                diversification = diversification_message (avg_correlation returns),
                sector_exposure = [],
                optimization =
                  map (\<lambda>(s, col, w). reduce_entry s (asset_sharpe col))
                    (filter (\<lambda>(s, col, w). asset_sharpe col < 0.1 \<and> w > 0.1)
                       (zip symbols (zip cols weights)))\<rparr>"
  using optimization_loop_filter [OF assms(1), of 0 weights "[]"] assms(2)
  by (simp add: generate_recommendations_def)


lemma asset_sharpe_flat: "asset_sharpe [0, 0] = 0"
  by (simp add: asset_sharpe_def np_mean_def std_ddof_def var_ddof_def)


lemma nan_sum_Some: "nan_sum (map Some cs) = Some (sum_list cs)"
  by (induction cs) (simp_all add: nan_sum_def)

lemma nan_mean_Some: "cs \<noteq> [] \<Longrightarrow> nan_mean (map Some cs) = Some (sum_list cs / real (length cs))"
  by (simp add: nan_mean_def nan_sum_Some)

lemma length_upper_pairs_sum: "2 * length (upper_pairs xs) + length xs = length xs * length xs"
  by (induction xs) (simp_all add: algebra_simps)

lemma length_upper_pairs: "2 * length (upper_pairs xs) = length xs * (length xs - 1)"
  using length_upper_pairs_sum [of xs] by (simp add: diff_mult_distrib2)

lemma diversification_message_bands:
  "(0.7 < a \<longrightarrow> diversification_message (Some a) = high_correlation_message)
   \<and> (0.5 < a \<and> a \<le> 0.7 \<longrightarrow> diversification_message (Some a) = moderate_diversification_message)
   \<and> (a \<le> 0.5 \<longrightarrow> diversification_message (Some a) = well_diversified_message)"
  by (auto simp: diversification_message_def nan_greater_def)

lemma diversification_message_cases:
  "diversification_message avg = high_correlation_message
   \<or> diversification_message avg = moderate_diversification_message
   \<or> diversification_message avg = well_diversified_message"
  by (simp add: diversification_message_def)

lemma generate_recommendations_diversification:
  assumes "generate_recommendations returns weights symbols risk_score = Inr r"
  shows "diversification r = diversification_message (avg_correlation returns)"
  using assms by (auto simp: generate_recommendations_def and_then_def split: sum.splits)

text \<open>
  C7. The claim reads: the message follows the mean of the strictly upper triangular
  correlations (above 0.7 high, in (0.5, 0.7] moderate, at most 0.5 well diversified),
  and a single instrument gets a "not applicable" state. What holds: whenever the
  pairwise correlations \<open>cs\<close> are all numbers and there is at least one pair, there are
  \<open>n (n - 1) / 2\<close> of them and the message follows their mean by these three bands; and
  the message is one of the three band messages for every input, there is no fourth
  state.
\<close>

theorem diversification_bands:
  assumes "generate_recommendations returns weights symbols risk_score = Inr r"
  shows "(diversification r = high_correlation_message
          \<or> diversification r = moderate_diversification_message
          \<or> diversification r = well_diversified_message)
       \<and> (\<forall>cs. map (\<lambda>(xs, ys). pearson xs ys) (upper_pairs (map snd returns)) = map Some cs \<and> cs \<noteq> []
             \<longrightarrow> 2 * length cs = length returns * (length returns - 1)
               \<and> (0.7 < sum_list cs / real (length cs)
                     \<longrightarrow> diversification r = high_correlation_message)
               \<and> (0.5 < sum_list cs / real (length cs) \<and> sum_list cs / real (length cs) \<le> 0.7
                     \<longrightarrow> diversification r = moderate_diversification_message)
               \<and> (sum_list cs / real (length cs) \<le> 0.5
                     \<longrightarrow> diversification r = well_diversified_message))"
proof -
  note d = generate_recommendations_diversification [OF assms]
  have bands: "2 * length cs = length returns * (length returns - 1)
               \<and> (0.7 < sum_list cs / real (length cs)
                     \<longrightarrow> diversification r = high_correlation_message)
               \<and> (0.5 < sum_list cs / real (length cs) \<and> sum_list cs / real (length cs) \<le> 0.7
                     \<longrightarrow> diversification r = moderate_diversification_message)
               \<and> (sum_list cs / real (length cs) \<le> 0.5
                     \<longrightarrow> diversification r = well_diversified_message)"
    if m: "map (\<lambda>(xs, ys). pearson xs ys) (upper_pairs (map snd returns)) = map Some cs"
      and ne: "cs \<noteq> []" for cs
  proof -
    have "length cs = length (upper_pairs (map snd returns))"
      using arg_cong [OF m, of length] by simp
    then have n: "2 * length cs = length returns * (length returns - 1)"
      using length_upper_pairs [of "map snd returns"] by simp
    have avg: "avg_correlation returns = Some (sum_list cs / real (length cs))"
      by (simp add: avg_correlation_def m nan_mean_Some [OF ne])
    show ?thesis
      using n diversification_message_bands [of "sum_list cs / real (length cs)"]
      by (simp only: d avg)
  qed
  show ?thesis
    using diversification_message_cases [of "avg_correlation returns"] bands
    by (simp add: d)
qed

lemma pearson_equal_columns: "pearson [0, 2] [0, 2] = Some 1"
proof -
  have "sqrt (2 * 2) = (2::real)" by (rule real_sqrt_unique) simp_all
  then show ?thesis
    by (simp add: pearson_def np_mean_def power2_eq_square)
qed

theorem diversification_bands_witness:
  "\<exists>r. generate_recommendations [(''A'', [0, 2]), (''B'', [0, 2])] [1 / 2, 1 / 2] [''A'', ''B''] 5 = Inr r
      \<and> diversification r = high_correlation_message"
proof -
  have a: "map (map_of [(''A'', [0, 2 :: real]), (''B'', [0, 2])]) [''A'', ''B''] = map Some [[0, 2], [0, 2]]"
    by simp
  have b: "length [''A'', ''B''] \<le> length [1 / 2, 1 / 2 :: real]"
    by simp
  obtain r where r:
    "generate_recommendations [(''A'', [0, 2]), (''B'', [0, 2])] [1 / 2, 1 / 2] [''A'', ''B''] 5 = Inr r"
    using generate_recommendations_result [OF a b, of 5] by blast
  have m: "map (\<lambda>(xs, ys). pearson xs ys) (upper_pairs (map snd [(''A'', [0, 2]), (''B'', [0, 2 :: real])]))
             = map Some [1]"
    by (simp add: pearson_equal_columns)
  from diversification_bands [OF r] m have "diversification r = high_correlation_message"
    by (auto dest!: spec [of _ "[1]"])
  with r show ?thesis by blast
qed

theorem single_instrument_diversification_counterexample:
  "generate_recommendations [(''A'', [0, 0])] [1] [''A''] 5
     = Inr \<lparr>summary = moderate_risk_summary,
            diversification = well_diversified_message,
            sector_exposure = [],
            optimization = [\<lparr>entry_symbol = ''A'', action = ''reduce'', reason_sharpe = 0\<rparr>]\<rparr>"
  by (simp add: generate_recommendations_def asset_sharpe_flat py_index_def reduce_entry_def
      summary_message_def diversification_message_def avg_correlation_def nan_mean_def nan_greater_def)

section \<open>Properties of the returns step\<close>














section \<open>The Sharpe ratio of the handler\<close>

lemma handler_sharpe_ratio_zero_volatility: "handler_sharpe_ratio er (Some 0) = Some 0"
  by (simp add: handler_sharpe_ratio_def nan_greater_def)

lemma handler_sharpe_ratio_positive_volatility:
  "0 < v \<Longrightarrow> handler_sharpe_ratio (Some e) (Some v) = Some ((e - 0.04) / v)"
  by (simp add: handler_sharpe_ratio_def nan_greater_def)

end
